theory Spec2Isabelle
  imports Main
begin

section \<open>The SDCC compiler mixin of Meson (mesonbuild/compilers/mixins/sdcc.py)\<close>

text \<open>
  Python strings are \<open>string\<close>, lists of strings are \<open>string list\<close>, the exceptions the
  module can raise are values of \<open>error\<close>, and a method that may raise returns
  \<open>error + 'a\<close> with \<open>Inl\<close> for the exception.
\<close>

datatype error =
    EnvironmentException string
  | KeyError string
  | NotImplementedError string
  | OSError string

datatype CompileCheckMode = PREPROCESS | COMPILE | LINK

subsection \<open>Python string primitives used by the module\<close>

definition startswith :: "string \<Rightarrow> string \<Rightarrow> bool" where
  "startswith s p = (take (length p) s = p)"

definition endswith :: "string \<Rightarrow> string \<Rightarrow> bool" where
  "endswith s p = (length p \<le> length s \<and> drop (length s - length p) s = p)"

text \<open>\<open>s.split(c)\<close> for a one-character separator: never the empty list.\<close>

fun split :: "string \<Rightarrow> char \<Rightarrow> string list" where
  "split [] c = [[]]"
| "split (x # xs) c =
     (if x = c then [] # split xs c
      else (case split xs c of [] \<Rightarrow> [[x]] | y # ys \<Rightarrow> (x # y) # ys))"

text \<open>\<open>sep.join(comps)\<close>.\<close>

fun str_join :: "string \<Rightarrow> string list \<Rightarrow> string" where
  "str_join s [] = []"
| "str_join s [x] = x"
| "str_join s (x # y # ys) = x @ s @ str_join s (y # ys)"

text \<open>\<open>s.rsplit(c, 1)[0]\<close>: the text before the last \<open>c\<close>, or all of \<open>s\<close> without one.\<close>

definition rsplit1_head :: "string \<Rightarrow> char \<Rightarrow> string" where
  "rsplit1_head s c =
     (if c \<in> set s then rev (tl (dropWhile (\<lambda>x. x \<noteq> c) (rev s))) else s)"

subsection \<open>\<open>os.path.join\<close> and \<open>os.path.normpath\<close> (POSIX flavour, posixpath.py)\<close>

definition sep :: string where
  "sep = ''/''"

text \<open>
  The module calls \<open>os.path.join\<close> and \<open>os.path.normpath\<close> of the Python standard
  library; they are modelled as posixpath.py defines them for \<open>str\<close> arguments (on
  Windows \<open>os.path\<close> is ntpath, which is not modelled).

  \<open>os.path.join(a, b)\<close> with one component \<open>b\<close>:
  \<^verbatim>\<open>
  if b.startswith(sep): path = b
  elif not path or path.endswith(sep): path += b
  else: path += sep + b
  \<close>
\<close>

definition join :: "string \<Rightarrow> string \<Rightarrow> string" where
  "join a b =
     (if startswith b sep then b
      else if a = [] \<or> endswith a sep then a @ b
      else a @ sep @ b)"

text \<open>
  The body of normpath's loop over the components; \<open>new_comps\<close> is the stack, its top
  at the end of the list.
  \<^verbatim>\<open>
  if comp in (empty, dot): continue
  if (comp != dotdot or (not initial_slashes and not new_comps) or
       (new_comps and new_comps[-1] == dotdot)):
      new_comps.append(comp)
  elif new_comps:
      new_comps.pop()
  \<close>
\<close>

definition normpath_step :: "nat \<Rightarrow> string list \<Rightarrow> string \<Rightarrow> string list" where
  "normpath_step initial_slashes new_comps cmp =
     (if cmp = [] \<or> cmp = ''.'' then new_comps
      else if cmp \<noteq> ''..'' \<or> (initial_slashes = 0 \<and> new_comps = []) \<or>
              (new_comps \<noteq> [] \<and> last new_comps = ''..'')
           then new_comps @ [cmp]
      else if new_comps \<noteq> [] then butlast new_comps
      else new_comps)"

primrec normpath_loop :: "nat \<Rightarrow> string list \<Rightarrow> string list \<Rightarrow> string list" where
  "normpath_loop initial_slashes new_comps [] = new_comps"
| "normpath_loop initial_slashes new_comps (cmp # comps) =
     normpath_loop initial_slashes (normpath_step initial_slashes new_comps cmp) comps"

definition count_initial_slashes :: "string \<Rightarrow> nat" where
  "count_initial_slashes path =
     (if startswith path sep then
        (if startswith path (sep @ sep) \<and> \<not> startswith path (sep @ sep @ sep) then 2 else 1)
      else 0)"

definition normpath :: "string \<Rightarrow> string" where
  "normpath path =
     (if path = [] then ''.''
      else
        let initial_slashes = count_initial_slashes path;
            comps = split path (CHR ''/'');
            new_comps = normpath_loop initial_slashes [] comps;
            joined = str_join sep new_comps;
            path' = (if initial_slashes \<noteq> 0
                     then concat (replicate initial_slashes sep) @ joined else joined)
        in if path' = [] then ''.'' else path')"

subsection \<open>The flag tables\<close>

definition BUILDTYPE_ARGS :: "(string \<times> string list) list" where
  "BUILDTYPE_ARGS =
     [(''plain'', []), (''debug'', []), (''debugoptimized'', []),
      (''release'', []), (''minsize'', []), (''custom'', [])]"

definition OPTIMIZATION_ARGS :: "(string \<times> string list) list" where
  "OPTIMIZATION_ARGS =
     [(''plain'', []), (''0'', []), (''g'', []),
      (''1'', [''--opt-code-speed'']), (''2'', [''--opt-code-speed'']),
      (''3'', [''--opt-code-speed'']), (''s'', [''--opt-code-size''])]"

definition DEBUG_ARGS :: "(bool \<times> string list) list" where
  "DEBUG_ARGS = [(False, []), (True, [''--debug''])]"

text \<open>\<open>table[key]\<close> of a dict: a missing key raises KeyError.\<close>

definition getitem :: "('k \<times> 'v) list \<Rightarrow> ('k \<Rightarrow> string) \<Rightarrow> 'k \<Rightarrow> error + 'v" where
  "getitem table repr key =
     (case map_of table key of None \<Rightarrow> Inl (KeyError (repr key)) | Some v \<Rightarrow> Inr v)"

definition repr_bool :: "bool \<Rightarrow> string" where
  "repr_bool b = (if b then ''True'' else ''False'')"

subsection \<open>The compiler object\<close>

text \<open>
  The attributes of \<open>self\<close> the mixin reads, and the methods it calls that the base
  class \<open>Compiler\<close> provides (they are not in this module, so they are fields here):
  \<open>exe_wrapper\<close> holds the wrapper's command (\<open>exe_wrapper.get_command()\<close>) when there is
  a wrapper, \<open>name_string\<close> and \<open>get_display_language\<close> hold what the methods of these
  names return, and \<open>get_basic_compiler_args\<close> is the method \<open>_get_basic_compiler_args\<close>.
\<close>

record 'env compiler =
  is_cross :: bool
  exe_wrapper :: "string list option"
  exelist :: "string list"
  language :: string
  base_options :: "string set"
  name_string :: string
  get_display_language :: string
  get_basic_compiler_args :: "'env \<Rightarrow> CompileCheckMode \<Rightarrow> string list \<times> string list"
  linker_to_compiler_args :: "string list \<Rightarrow> string list"
  get_output_args :: "string \<Rightarrow> string list"

definition SdccCompiler_init :: "'env compiler \<Rightarrow> error + 'env compiler" where
  "SdccCompiler_init self =
     (if \<not> is_cross self
      then Inl (EnvironmentException ''sdcc supports only cross-compilation.'')
      else Inr (self\<lparr>base_options := {''b_ndebug''}\<rparr>))"

subsection \<open>Argument synthesis\<close>

definition get_always_args :: "string list" where
  "get_always_args = []"

definition get_no_stdinc_args :: "string list" where
  "get_no_stdinc_args = [''--nostdinc'']"

definition get_no_stdlib_link_args :: "string list" where
  "get_no_stdlib_link_args = [''--nostdlib'']"

definition get_buildtype_args :: "string \<Rightarrow> error + string list" where
  "get_buildtype_args buildtype = getitem BUILDTYPE_ARGS id buildtype"

definition get_include_args :: "string \<Rightarrow> bool \<Rightarrow> string list" where
  "get_include_args path is_system =
     (let path = (if path = [] then ''.'' else path) in [''-I'' @ path])"

definition get_pic_args :: "string list" where
  "get_pic_args = []"

definition get_preprocess_only_args :: "string list" where
  "get_preprocess_only_args = [''-E'']"

definition get_werror_args :: "string list" where
  "get_werror_args = [''--Werror'']"

definition get_optimization_args :: "string \<Rightarrow> error + string list" where
  "get_optimization_args optimization_level = getitem OPTIMIZATION_ARGS id optimization_level"

definition get_debug_args :: "bool \<Rightarrow> error + string list" where
  "get_debug_args is_debug = getitem DEBUG_ARGS repr_bool is_debug"

subsection \<open>The path rewriter\<close>

text \<open>
  The method assigns into the list it was given, so the lists live in a store and the
  argument is an address.
  \<^verbatim>\<open>
  for idx, i in enumerate(parameter_list):
      if i[:2] == '-I' or i[:2] == '-L':
          parameter_list[idx] = i[:2] + os.path.normpath(os.path.join(build_dir, i[2:]))
  return parameter_list
  \<close>
\<close>

type_synonym addr = nat
type_synonym store = "addr \<Rightarrow> string list"

function rewrite_loop :: "store \<Rightarrow> addr \<Rightarrow> string \<Rightarrow> nat \<Rightarrow> store" where
  "rewrite_loop h parameter_list build_dir idx =
     (if idx < length (h parameter_list) then
        let i = h parameter_list ! idx in
        if take 2 i = ''-I'' \<or> take 2 i = ''-L''
        then rewrite_loop
               (h(parameter_list :=
                    (h parameter_list)[idx := take 2 i @ normpath (join build_dir (drop 2 i))]))
               parameter_list build_dir (Suc idx)
        else rewrite_loop h parameter_list build_dir (Suc idx)
      else h)"
  by pat_completeness auto
termination
  by (relation "measure (\<lambda>(h, p, b, idx). length (h p) - idx)") auto

definition compute_parameters_with_absolute_paths ::
  "store \<Rightarrow> addr \<Rightarrow> string \<Rightarrow> store \<times> addr" where
  "compute_parameters_with_absolute_paths h parameter_list build_dir =
     (rewrite_loop h parameter_list build_dir 0, parameter_list)"

subsection \<open>The sanity check\<close>

text \<open>
  What \<open>_sanity_check_impl\<close> asks of the outside: \<open>mesonlib.join_args\<close>, writing the probe
  source (\<open>Some e\<close>: \<open>open\<close> or \<open>write\<close> raised an OSError with text \<open>e\<close>),
  \<open>mesonlib.Popen_safe(cmdlist, cwd)\<close> (\<open>Inl e\<close>: it raised; \<open>Inr\<close>: the return code,
  stdout and stderr) and \<open>subprocess.run(cmdlist)\<close> (\<open>Inl e\<close>: it raised an exception
  whose \<open>str\<close> is \<open>e\<close>; \<open>Inr\<close>: the return code).
\<close>

record system =
  join_args :: "string list \<Rightarrow> string"
  open_write :: "string \<Rightarrow> string \<Rightarrow> string option"
  Popen_safe :: "string list \<Rightarrow> string \<Rightarrow> string + (int \<times> string \<times> string)"
  subprocess_run :: "string list \<Rightarrow> string + int"

text \<open>What the check does to the outside, in order.\<close>

datatype event =
    Debug "string list"
  | WriteSource string string
  | InvokeCompiler "string list" string
  | RunProbe "string list"

text \<open>
  \<^verbatim>\<open>
  mode = CompileCheckMode.LINK
  if self.is_cross:
      binname += '_cross'
      if self.exe_wrapper is None:
          mode = CompileCheckMode.COMPILE
  \<close>
\<close>

definition sanity_mode :: "'env compiler \<Rightarrow> CompileCheckMode" where
  "sanity_mode self =
     (if is_cross self then (if exe_wrapper self = None then COMPILE else LINK) else LINK)"

definition sanity_binname :: "'env compiler \<Rightarrow> string \<Rightarrow> string" where
  "sanity_binname self sname =
     (let binname = rsplit1_head sname (CHR ''.'');
          binname = (if is_cross self then binname @ ''_cross'' else binname)
      in binname @ ''.out'')"

text \<open>
  \<^verbatim>\<open>
  cargs, largs = self._get_basic_compiler_args(environment, mode)
  extra_flags = cargs + self.linker_to_compiler_args(largs)
  cmdlist = self.exelist + [sname] + self.get_output_args(binname) + extra_flags
  \<close>
\<close>

definition sanity_compile_cmdlist :: "'env compiler \<Rightarrow> 'env \<Rightarrow> string \<Rightarrow> string list" where
  "sanity_compile_cmdlist self environment sname =
     (case get_basic_compiler_args self environment (sanity_mode self) of
        (cargs, largs) \<Rightarrow>
          let extra_flags = cargs @ linker_to_compiler_args self largs
          in exelist self @ [sname] @ get_output_args self (sanity_binname self sname)
               @ extra_flags)"

text \<open>
  The command that runs the probe; \<open>None\<close> is the early \<open>return\<close> of a cross compiler
  without a wrapper.
  \<^verbatim>\<open>
  if self.is_cross:
      if self.exe_wrapper is None:
          return
      cmdlist = self.exe_wrapper.get_command() + [binary_name]
  else:
      cmdlist = [binary_name]
  \<close>
\<close>

definition sanity_run_cmdlist :: "'env compiler \<Rightarrow> string \<Rightarrow> string list option" where
  "sanity_run_cmdlist self binary_name =
     (if is_cross self then
        (case exe_wrapper self of
           None \<Rightarrow> None
         | Some command \<Rightarrow> Some (command @ [binary_name]))
      else Some [binary_name])"

definition sanity_check_impl ::
  "'env compiler \<Rightarrow> system \<Rightarrow> string \<Rightarrow> 'env \<Rightarrow> string \<Rightarrow> string \<Rightarrow> event list \<times> (error + unit)"
where
  "sanity_check_impl self sys work_dir environment sname code =
     (let t0 = [Debug [''Sanity testing '' @ get_display_language self @ '' compiler:'',
                       join_args sys (exelist self)],
                Debug [''Is cross compiler: '' @ repr_bool (is_cross self) @ ''.'']];
          source_name = join work_dir sname;
          cmdlist = sanity_compile_cmdlist self environment sname;
          binary_name = join work_dir (sanity_binname self sname);
          t1 = t0 @ [WriteSource source_name code]
      in case open_write sys source_name code of
           Some e \<Rightarrow> (t1, Inl (OSError e))
         | None \<Rightarrow>
            (let t2 = t1 @ [InvokeCompiler cmdlist work_dir]
             in case Popen_safe sys cmdlist work_dir of
                  Inl e \<Rightarrow> (t2, Inl (OSError e))
                | Inr (returncode, stdo, stde) \<Rightarrow>
                   (let t3 = t2 @
                          [Debug [''Sanity check compiler command line:'', join_args sys cmdlist],
                           Debug [''Sanity check compile stdout:''],
                           Debug [stdo],
                           Debug [''-----'' @ [CHR 0x0A] @ ''Sanity check compile stderr:''],
                           Debug [stde],
                           Debug [''-----'']]
                    in if returncode \<noteq> 0
                       then (t3, Inl (EnvironmentException
                                (''Compiler '' @ name_string self @ '' cannot compile programs.'')))
                       else
                        (case sanity_run_cmdlist self binary_name of
                           None \<Rightarrow> (t3, Inr ())
                         | Some cmdlist \<Rightarrow>
                            (let t4 = t3 @
                                   [Debug [''Running test binary command: '', join_args sys cmdlist],
                                    RunProbe cmdlist]
                             in case subprocess_run sys cmdlist of
                                  Inl e \<Rightarrow>
                                    (t4, Inl (EnvironmentException
                                       (''Could not invoke sanity test executable: '' @ e @ ''.'')))
                                | Inr returncode \<Rightarrow>
                                   (if returncode \<noteq> 0
                                    then (t4, Inl (EnvironmentException
                                       (''Executables created by '' @ language self @ '' compiler ''
                                          @ name_string self @ '' are not runnable.'')))
                                    else (t4, Inr ())))))))"

subsection \<open>Auxiliary notions for the proofs, and concrete objects for the instances\<close>

text \<open>What one iteration of the path rewriter's loop does to the token it visits.\<close>

definition rewrite_token :: "string \<Rightarrow> string \<Rightarrow> string" where
  "rewrite_token build_dir i =
     (if take 2 i = ''-I'' \<or> take 2 i = ''-L''
      then take 2 i @ normpath (join build_dir (drop 2 i)) else i)"

text \<open>Components as normpath leaves them below a root: no empty one, no dot, no dot-dot.\<close>

definition clean_comps :: "string list \<Rightarrow> bool" where
  "clean_comps cs =
     (\<forall>c\<in>set cs. c \<noteq> [] \<and> c \<noteq> ''.'' \<and> c \<noteq> ''..'' \<and> CHR ''/'' \<notin> set c)"

definition example_store :: store where
  "example_store =
     (\<lambda>a. [])(0 := [''-Ifoo'', ''-L/opt/lib'', ''-O2''], 1 := [''-c'', ''-o'', ''x.rel''])"

definition example_compiler :: "bool \<Rightarrow> string list option \<Rightarrow> unit compiler" where
  "example_compiler cross wrapper =
     \<lparr>is_cross = cross, exe_wrapper = wrapper, exelist = [''sdcc''], language = ''c'',
      base_options = {}, name_string = ''sdcc'', get_display_language = ''C'',
      get_basic_compiler_args = (\<lambda>env mode. (if mode = COMPILE then [''-c''] else [], [])),
      linker_to_compiler_args = (\<lambda>args. args),
      get_output_args = (\<lambda>target. [''-o'', target])\<rparr>"

definition example_system :: "int \<Rightarrow> string + int \<Rightarrow> system" where
  "example_system compile_returncode run_result =
     \<lparr>join_args = str_join '' '',
      open_write = (\<lambda>path text. None),
      Popen_safe = (\<lambda>cmdlist cwd. Inr (compile_returncode, [], [])),
      subprocess_run = (\<lambda>cmdlist. run_result)\<rparr>"

section \<open>Properties\<close>

subsection \<open>Splitting and joining\<close>

lemma split_no_sep: "c \<in> set (split s ch) \<Longrightarrow> ch \<notin> set c"
  by (induction s arbitrary: c) (auto split: if_splits list.splits)

lemma split_no_char: "ch \<notin> set x \<Longrightarrow> split x ch = [x]"
  by (induction x) auto

lemma split_append: "ch \<notin> set x \<Longrightarrow> split (x @ ch # r) ch = x # split r ch"
  by (induction x) auto

lemma split_join_clean:
  "clean_comps cs \<Longrightarrow> cs \<noteq> [] \<Longrightarrow> split (str_join ''/'' cs) (CHR ''/'') = cs"
proof (induction cs)
  case Nil
  then show ?case by simp
next
  case (Cons x xs)
  have nx: "CHR ''/'' \<notin> set x" using Cons.prems(1) by (simp add: clean_comps_def)
  show ?case
  proof (cases xs)
    case Nil
    then show ?thesis using nx by (simp add: split_no_char)
  next
    case (Cons y ys)
    have "clean_comps xs" using Cons.prems(1) by (simp add: clean_comps_def)
    then have "split (str_join ''/'' xs) (CHR ''/'') = xs"
      using Cons.IH Cons by simp
    then show ?thesis using nx Cons by (simp add: split_append)
  qed
qed

lemma join_clean_no_slash:
  "clean_comps cs \<Longrightarrow> \<not> startswith (str_join ''/'' cs) ''/''"
proof (cases cs)
  case Nil
  then show ?thesis by (simp add: startswith_def)
next
  case (Cons x xs)
  assume "clean_comps cs"
  then have "x \<noteq> []" "CHR ''/'' \<notin> set x" using Cons by (simp_all add: clean_comps_def)
  then obtain a r where x: "x = a # r" "a \<noteq> CHR ''/''" by (cases x) auto
  show ?thesis using Cons x by (cases xs) (simp_all add: startswith_def)
qed

subsection \<open>normpath on absolute paths\<close>

lemma step_clean:
  "0 < n \<Longrightarrow> clean_comps acc \<Longrightarrow> CHR ''/'' \<notin> set c \<Longrightarrow> clean_comps (normpath_step n acc c)"
  unfolding normpath_step_def clean_comps_def
  by (auto dest: in_set_butlastD)

lemma loop_clean:
  "0 < n \<Longrightarrow> clean_comps acc \<Longrightarrow> \<forall>c\<in>set cs. CHR ''/'' \<notin> set c
     \<Longrightarrow> clean_comps (normpath_loop n acc cs)"
  by (induction cs arbitrary: acc) (simp_all add: step_clean)

lemma loop_append_clean: "clean_comps cs \<Longrightarrow> normpath_loop n acc cs = acc @ cs"
  by (induction cs arbitrary: acc) (simp_all add: normpath_step_def clean_comps_def)

lemma count_initial_slashes_cases:
  "count_initial_slashes x = 0 \<or> count_initial_slashes x = 1 \<or> count_initial_slashes x = 2"
  by (simp add: count_initial_slashes_def)

lemma count_initial_slashes_pos: "startswith x sep \<Longrightarrow> 0 < count_initial_slashes x"
  by (simp add: count_initial_slashes_def)

lemma count_initial_slashes_1:
  "\<not> startswith r ''/'' \<Longrightarrow> count_initial_slashes (''/'' @ r) = 1"
  by (cases r) (simp_all add: count_initial_slashes_def startswith_def sep_def)

lemma count_initial_slashes_2:
  "\<not> startswith r ''/'' \<Longrightarrow> count_initial_slashes (''//'' @ r) = 2"
  by (cases r) (simp_all add: count_initial_slashes_def startswith_def sep_def)

lemma loop_of_joined:
  assumes "clean_comps cs"
  shows "normpath_loop n [] (split (str_join ''/'' cs) (CHR ''/'')) = cs"
proof (cases "cs = []")
  case True
  then show ?thesis by (simp add: normpath_step_def)
next
  case False
  then show ?thesis using assms by (simp add: split_join_clean loop_append_clean)
qed

text \<open>A root of one or two slashes followed by clean components is a fixed point.\<close>

lemma normpath_fixed_1:
  assumes "clean_comps cs"
  shows "normpath (''/'' @ str_join ''/'' cs) = ''/'' @ str_join ''/'' cs"
proof -
  have c: "count_initial_slashes (''/'' @ str_join ''/'' cs) = 1"
    using assms by (simp only: count_initial_slashes_1 join_clean_no_slash not_False_eq_True)
  have l: "normpath_loop 1 [] (split (''/'' @ str_join ''/'' cs) (CHR ''/'')) = cs"
    using loop_of_joined [OF assms, of 1] by (simp add: normpath_step_def)
  show ?thesis
    unfolding normpath_def Let_def c l by (simp add: sep_def numeral_2_eq_2)
qed

lemma normpath_fixed_2:
  assumes "clean_comps cs"
  shows "normpath (''//'' @ str_join ''/'' cs) = ''//'' @ str_join ''/'' cs"
proof -
  have c: "count_initial_slashes (''//'' @ str_join ''/'' cs) = 2"
    using assms by (simp only: count_initial_slashes_2 join_clean_no_slash not_False_eq_True)
  have l: "normpath_loop 2 [] (split (''//'' @ str_join ''/'' cs) (CHR ''/'')) = cs"
    using loop_of_joined [OF assms, of 2] by (simp add: normpath_step_def)
  show ?thesis
    unfolding normpath_def Let_def c l by (simp add: sep_def numeral_2_eq_2)
qed

lemma normpath_absolute_shape:
  assumes "startswith x sep"
  shows "\<exists>cs. clean_comps cs \<and> (normpath x = ''/'' @ str_join ''/'' cs \<or>
                                normpath x = ''//'' @ str_join ''/'' cs)"
proof -
  let ?n = "count_initial_slashes x"
  let ?cs = "normpath_loop ?n [] (split x (CHR ''/''))"
  have pos: "0 < ?n" using assms by (rule count_initial_slashes_pos)
  have "clean_comps []" by (simp add: clean_comps_def)
  then have cl: "clean_comps ?cs"
    using pos by (intro loop_clean) (auto dest: split_no_sep)
  have ne: "x \<noteq> []" using assms by (auto simp: startswith_def sep_def)
  have "?n = 1 \<or> ?n = 2" using pos count_initial_slashes_cases [of x] by auto
  then have "normpath x = ''/'' @ str_join ''/'' ?cs \<or> normpath x = ''//'' @ str_join ''/'' ?cs"
    using ne by (auto simp: normpath_def Let_def sep_def numeral_2_eq_2)
  then show ?thesis using cl by blast
qed

lemma normpath_absolute: "startswith x sep \<Longrightarrow> startswith (normpath x) sep"
  using normpath_absolute_shape [of x] by (auto simp: startswith_def sep_def)

lemma normpath_idem_absolute: "startswith x sep \<Longrightarrow> normpath (normpath x) = normpath x"
  using normpath_absolute_shape [of x] normpath_fixed_1 normpath_fixed_2 by metis

lemma join_absolute_right: "startswith q sep \<Longrightarrow> join b q = q"
  by (simp add: join_def)

lemma join_absolute_left: "startswith b sep \<Longrightarrow> startswith (join b q) sep"
  by (cases b) (auto simp: join_def startswith_def sep_def)

lemma rewrite_token_idem:
  "startswith b sep \<Longrightarrow> rewrite_token b (rewrite_token b t) = rewrite_token b t"
  by (simp add: rewrite_token_def join_absolute_right join_absolute_left
        normpath_absolute normpath_idem_absolute)

subsection \<open>The rewriter's loop\<close>

declare rewrite_loop.simps [simp del]

lemma rewrite_loop_other: "a \<noteq> p \<Longrightarrow> rewrite_loop h p b idx a = h a"
proof (induction h p b idx rule: rewrite_loop.induct)
  case (1 h p b idx)
  show ?case
    using "1.IH" "1.prems"
    by (subst rewrite_loop.simps) (auto simp: Let_def fun_upd_def)
qed

text \<open>From index \<open>idx\<close> on the loop rewrites every token; the tokens before it stay.\<close>

lemma rewrite_loop_list:
  "rewrite_loop h p b idx p = take idx (h p) @ map (rewrite_token b) (drop idx (h p))"
proof (induction h p b idx rule: rewrite_loop.induct)
  case (1 h p b idx)
  show ?case
  proof (cases "idx < length (h p)")
    case False
    then show ?thesis by (subst rewrite_loop.simps) simp
  next
    case True
    let ?i = "h p ! idx"
    have d: "drop idx (h p) = ?i # drop (Suc idx) (h p)"
      using True by (simp add: Cons_nth_drop_Suc)
    show ?thesis
    proof (cases "take 2 ?i = ''-I'' \<or> take 2 ?i = ''-L''")
      case True
      have "rewrite_loop h p b idx p =
              rewrite_loop (h(p := (h p)[idx := take 2 ?i @ normpath (join b (drop 2 ?i))]))
                p b (Suc idx) p"
        using \<open>idx < length (h p)\<close> True by (subst rewrite_loop.simps) (simp add: Let_def)
      also have "\<dots> = take (Suc idx) ((h p)[idx := rewrite_token b ?i])
                        @ map (rewrite_token b) (drop (Suc idx) (h p))"
        using "1.IH"(1) [OF \<open>idx < length (h p)\<close> refl True] True
        by (simp add: rewrite_token_def fun_upd_def)
      also have "\<dots> = take idx (h p) @ map (rewrite_token b) (drop idx (h p))"
        using \<open>idx < length (h p)\<close> by (simp add: d take_Suc_conv_app_nth)
      finally show ?thesis .
    next
      case False
      have "rewrite_loop h p b idx p = rewrite_loop h p b (Suc idx) p"
        using \<open>idx < length (h p)\<close> False by (subst rewrite_loop.simps) (simp add: Let_def)
      also have "\<dots> = take (Suc idx) (h p) @ map (rewrite_token b) (drop (Suc idx) (h p))"
        using "1.IH"(2) [OF \<open>idx < length (h p)\<close> refl False] .
      also have "\<dots> = take idx (h p) @ map (rewrite_token b) (drop idx (h p))"
        using \<open>idx < length (h p)\<close> False
        by (simp add: d take_Suc_conv_app_nth rewrite_token_def)
      finally show ?thesis .
    qed
  qed
qed

lemma rewrite_loop_0: "rewrite_loop h p b 0 = h(p := map (rewrite_token b) (h p))"
  by (rule ext) (simp add: rewrite_loop_list rewrite_loop_other)

lemmas path_eval =
  normpath_def join_def count_initial_slashes_def normpath_step_def startswith_def endswith_def
  sep_def Let_def numeral_2_eq_2

lemmas sanity_eval =
  example_system_def example_compiler_def sanity_check_impl_def Let_def sanity_run_cmdlist_def
  sanity_binname_def rsplit1_head_def join_def startswith_def endswith_def sep_def
  sanity_compile_cmdlist_def sanity_mode_def repr_bool_def

section \<open>The claims\<close>

subsection \<open>The sanity check\<close>

text \<open>
  C1. When the probe source was written and the compile invocation returns a non-zero
  code, the check raises the EnvironmentException "Compiler ... cannot compile programs."
  and its trace holds no run of the probe. Conversely, whenever the trace holds a run of
  the probe, the compile invocation returned 0, and the run is the last event, after the
  compiler's invocation.
\<close>

theorem compile_failure_is_fatal:
  "(open_write sys (join work_dir sname) code = None \<longrightarrow>
    Popen_safe sys (sanity_compile_cmdlist self environment sname) work_dir
      = Inr (returncode, stdo, stde) \<longrightarrow>
    returncode \<noteq> 0 \<longrightarrow>
      snd (sanity_check_impl self sys work_dir environment sname code)
        = Inl (EnvironmentException
                 (''Compiler '' @ name_string self @ '' cannot compile programs.''))
      \<and> (\<forall>cmdlist. RunProbe cmdlist
             \<notin> set (fst (sanity_check_impl self sys work_dir environment sname code))))
   \<and> (\<forall>cmdlist. RunProbe cmdlist
          \<in> set (fst (sanity_check_impl self sys work_dir environment sname code)) \<longrightarrow>
        (\<exists>out err. Popen_safe sys (sanity_compile_cmdlist self environment sname) work_dir
                      = Inr (0, out, err))
        \<and> (\<exists>before. fst (sanity_check_impl self sys work_dir environment sname code)
                        = before @ [RunProbe cmdlist]
                    \<and> InvokeCompiler (sanity_compile_cmdlist self environment sname) work_dir
                        \<in> set before))"
  by (auto simp: sanity_check_impl_def Let_def split: option.splits sum.splits prod.splits)

theorem compile_failure_is_fatal_witness:
  "snd (sanity_check_impl (example_compiler True (Some [''qemu''])) (example_system 1 (Inr 0))
          ''/tmp/w'' () ''sanitycheckc.c'' ''int main(void) { return 0; }'')
     = Inl (EnvironmentException ''Compiler sdcc cannot compile programs.'')
   \<and> RunProbe [''qemu'', ''/tmp/w/sanitycheckc_cross.out'']
       \<notin> set (fst (sanity_check_impl (example_compiler True (Some [''qemu''])) (example_system 1 (Inr 0))
          ''/tmp/w'' () ''sanitycheckc.c'' ''int main(void) { return 0; }''))
   \<and> RunProbe [''qemu'', ''/tmp/w/sanitycheckc_cross.out'']
       \<in> set (fst (sanity_check_impl (example_compiler True (Some [''qemu''])) (example_system 0 (Inr 0))
          ''/tmp/w'' () ''sanitycheckc.c'' ''int main(void) { return 0; }''))
   \<and> Popen_safe (example_system 0 (Inr 0))
        (sanity_compile_cmdlist (example_compiler True (Some [''qemu''])) () ''sanitycheckc.c'')
        ''/tmp/w'' = Inr (0, [], [])"
  using compile_failure_is_fatal [where sys = "example_system 1 (Inr 0)" and work_dir = "''/tmp/w''"
          and sname = "''sanitycheckc.c''" and code = "''int main(void) { return 0; }''"
          and self = "example_compiler True (Some [''qemu''])" and environment = "()"
          and returncode = 1 and stdo = "[]" and stde = "[]"]
        compile_failure_is_fatal [where sys = "example_system 0 (Inr 0)" and work_dir = "''/tmp/w''"
          and sname = "''sanitycheckc.c''" and code = "''int main(void) { return 0; }''"
          and self = "example_compiler True (Some [''qemu''])" and environment = "()"
          and returncode = 0 and stdo = "[]" and stde = "[]"]
  by (simp add: sanity_eval)

text \<open>
  C2. For a cross compiler without an execution wrapper the check selects the mode COMPILE:
  once the probe source was written, the check invokes the compiler in the working
  directory with the basic arguments of the mode COMPILE at the end of the command line,
  and it invokes the compiler with no other command line. When that invocation returns 0,
  the check returns normally (no exception) and its trace holds no run of the probe.
\<close>

theorem cross_without_wrapper_skips_run:
  "is_cross self \<and> exe_wrapper self = None \<longrightarrow>
     sanity_mode self = COMPILE
     \<and> sanity_compile_cmdlist self environment sname
         = exelist self @ [sname] @ get_output_args self (sanity_binname self sname)
             @ fst (get_basic_compiler_args self environment COMPILE)
             @ linker_to_compiler_args self (snd (get_basic_compiler_args self environment COMPILE))
     \<and> (open_write sys (join work_dir sname) code = None \<longrightarrow>
          InvokeCompiler
             (exelist self @ [sname] @ get_output_args self (sanity_binname self sname)
             @ fst (get_basic_compiler_args self environment COMPILE)
             @ linker_to_compiler_args self (snd (get_basic_compiler_args self environment COMPILE)))
             work_dir
            \<in> set (fst (sanity_check_impl self sys work_dir environment sname code))
          \<and> (\<forall>cmdlist cwd.
                InvokeCompiler cmdlist cwd \<in> set (fst (sanity_check_impl self sys work_dir environment sname code)) \<longrightarrow>
                cmdlist = exelist self @ [sname] @ get_output_args self (sanity_binname self sname)
             @ fst (get_basic_compiler_args self environment COMPILE)
             @ linker_to_compiler_args self (snd (get_basic_compiler_args self environment COMPILE))
                \<and> cwd = work_dir))
     \<and> (open_write sys (join work_dir sname) code = None \<longrightarrow>
          Popen_safe sys (sanity_compile_cmdlist self environment sname) work_dir
            = Inr (0, stdo, stde) \<longrightarrow>
          snd (sanity_check_impl self sys work_dir environment sname code) = Inr ()
          \<and> (\<forall>cmdlist. RunProbe cmdlist
                 \<notin> set (fst (sanity_check_impl self sys work_dir environment sname code))))"
proof (intro impI)
  assume cross: "is_cross self \<and> exe_wrapper self = None"
  have mode: "sanity_mode self = COMPILE"
    using cross by (simp add: sanity_mode_def)
  have cmd: "sanity_compile_cmdlist self environment sname
         = exelist self @ [sname] @ get_output_args self (sanity_binname self sname)
             @ fst (get_basic_compiler_args self environment COMPILE)
             @ linker_to_compiler_args self (snd (get_basic_compiler_args self environment COMPILE))"
    using mode by (simp add: sanity_compile_cmdlist_def split: prod.splits)
  have run: "sanity_run_cmdlist self binary_name = None" for binary_name
    using cross by (simp add: sanity_run_cmdlist_def)
  have invoked: "InvokeCompiler (sanity_compile_cmdlist self environment sname) work_dir
            \<in> set (fst (sanity_check_impl self sys work_dir environment sname code))
          \<and> (\<forall>cmdlist cwd.
                InvokeCompiler cmdlist cwd \<in> set (fst (sanity_check_impl self sys work_dir environment sname code)) \<longrightarrow>
                cmdlist = sanity_compile_cmdlist self environment sname \<and> cwd = work_dir)"
    if "open_write sys (join work_dir sname) code = None"
    using that run
    by (auto simp: sanity_check_impl_def Let_def split: sum.splits prod.splits if_splits)
  have skipped: "snd (sanity_check_impl self sys work_dir environment sname code) = Inr ()
          \<and> (\<forall>cmdlist. RunProbe cmdlist
                 \<notin> set (fst (sanity_check_impl self sys work_dir environment sname code)))"
    if "open_write sys (join work_dir sname) code = None"
      and "Popen_safe sys (sanity_compile_cmdlist self environment sname) work_dir
            = Inr (0, stdo, stde)"
    using that run by (simp add: sanity_check_impl_def Let_def)
  show "sanity_mode self = COMPILE
     \<and> sanity_compile_cmdlist self environment sname
         = exelist self @ [sname] @ get_output_args self (sanity_binname self sname)
             @ fst (get_basic_compiler_args self environment COMPILE)
             @ linker_to_compiler_args self (snd (get_basic_compiler_args self environment COMPILE))
     \<and> (open_write sys (join work_dir sname) code = None \<longrightarrow>
          InvokeCompiler
             (exelist self @ [sname] @ get_output_args self (sanity_binname self sname)
             @ fst (get_basic_compiler_args self environment COMPILE)
             @ linker_to_compiler_args self (snd (get_basic_compiler_args self environment COMPILE)))
             work_dir
            \<in> set (fst (sanity_check_impl self sys work_dir environment sname code))
          \<and> (\<forall>cmdlist cwd.
                InvokeCompiler cmdlist cwd \<in> set (fst (sanity_check_impl self sys work_dir environment sname code)) \<longrightarrow>
                cmdlist = exelist self @ [sname] @ get_output_args self (sanity_binname self sname)
             @ fst (get_basic_compiler_args self environment COMPILE)
             @ linker_to_compiler_args self (snd (get_basic_compiler_args self environment COMPILE))
                \<and> cwd = work_dir))
     \<and> (open_write sys (join work_dir sname) code = None \<longrightarrow>
          Popen_safe sys (sanity_compile_cmdlist self environment sname) work_dir
            = Inr (0, stdo, stde) \<longrightarrow>
          snd (sanity_check_impl self sys work_dir environment sname code) = Inr ()
          \<and> (\<forall>cmdlist. RunProbe cmdlist
                 \<notin> set (fst (sanity_check_impl self sys work_dir environment sname code))))"
    using mode invoked skipped unfolding cmd by blast
qed

theorem cross_without_wrapper_skips_run_witness:
  "is_cross (example_compiler True None) \<and> exe_wrapper (example_compiler True None) = None
   \<and> sanity_mode (example_compiler True None) = COMPILE
   \<and> sanity_compile_cmdlist (example_compiler True None) () ''sanitycheckc.c''
       = [''sdcc'', ''sanitycheckc.c'', ''-o'', ''sanitycheckc_cross.out'', ''-c'']
   \<and> InvokeCompiler [''sdcc'', ''sanitycheckc.c'', ''-o'', ''sanitycheckc_cross.out'', ''-c'']
        ''/tmp/w''
       \<in> set (fst (sanity_check_impl (example_compiler True None) (example_system 0 (Inr 1))
          ''/tmp/w'' () ''sanitycheckc.c'' ''int main(void) { return 0; }''))
   \<and> snd (sanity_check_impl (example_compiler True None) (example_system 0 (Inr 1))
          ''/tmp/w'' () ''sanitycheckc.c'' ''int main(void) { return 0; }'') = Inr ()
   \<and> RunProbe [''/tmp/w/sanitycheckc_cross.out'']
       \<notin> set (fst (sanity_check_impl (example_compiler True None) (example_system 0 (Inr 1))
          ''/tmp/w'' () ''sanitycheckc.c'' ''int main(void) { return 0; }''))"
  using cross_without_wrapper_skips_run [where self = "example_compiler True None"
          and environment = "()" and sname = "''sanitycheckc.c''"
          and sys = "example_system 0 (Inr 1)" and work_dir = "''/tmp/w''"
          and code = "''int main(void) { return 0; }''" and stdo = "[]" and stde = "[]"]
  by (simp add: example_system_def example_compiler_def sanity_binname_def rsplit1_head_def)

text \<open>
  C10. Once the probe source was written, the compile invocation returned 0 and there is a
  command to run the probe with: when launching it raises, the check raises the
  EnvironmentException "Could not invoke sanity test executable: ..."; when it exits with a
  non-zero code, the check raises "Executables created by ... are not runnable."; when it
  exits with 0, the check returns normally. The two diagnostics differ from each other and
  from the compile failure's "Compiler ... cannot compile programs.", whatever the
  exception's text, the language and the compiler's name are.
\<close>

theorem run_phase_outcomes:
  "(open_write sys (join work_dir sname) code = None \<longrightarrow>
    Popen_safe sys (sanity_compile_cmdlist self environment sname) work_dir
      = Inr (0, stdo, stde) \<longrightarrow>
    sanity_run_cmdlist self (join work_dir (sanity_binname self sname)) = Some cmdlist \<longrightarrow>
      (\<forall>e. subprocess_run sys cmdlist = Inl e \<longrightarrow>
         snd (sanity_check_impl self sys work_dir environment sname code)
           = Inl (EnvironmentException
                    (''Could not invoke sanity test executable: '' @ e @ ''.'')))
      \<and> (\<forall>rc. subprocess_run sys cmdlist = Inr rc \<longrightarrow> rc \<noteq> 0 \<longrightarrow>
         snd (sanity_check_impl self sys work_dir environment sname code)
           = Inl (EnvironmentException
                    (''Executables created by '' @ language self @ '' compiler ''
                       @ name_string self @ '' are not runnable.'')))
      \<and> (subprocess_run sys cmdlist = Inr 0 \<longrightarrow>
         snd (sanity_check_impl self sys work_dir environment sname code) = Inr ()))
   \<and> ''Could not invoke sanity test executable: '' @ e1 @ ''.''
        \<noteq> ''Executables created by '' @ language self @ '' compiler '' @ name_string self
             @ '' are not runnable.''
   \<and> ''Could not invoke sanity test executable: '' @ e1 @ ''.''
        \<noteq> ''Compiler '' @ name_string self @ '' cannot compile programs.''
   \<and> ''Executables created by '' @ language self @ '' compiler '' @ name_string self
          @ '' are not runnable.''
        \<noteq> ''Compiler '' @ name_string self @ '' cannot compile programs.''"
  by (auto simp: sanity_check_impl_def Let_def)

theorem run_phase_outcomes_witness:
  "snd (sanity_check_impl (example_compiler True (Some [''qemu''])) (example_system 0 (Inl ''No such file or directory''))
          ''/tmp/w'' () ''sanitycheckc.c'' ''int main(void) { return 0; }'')
     = Inl (EnvironmentException
              ''Could not invoke sanity test executable: No such file or directory.'')
   \<and> snd (sanity_check_impl (example_compiler True (Some [''qemu''])) (example_system 0 (Inr 3))
          ''/tmp/w'' () ''sanitycheckc.c'' ''int main(void) { return 0; }'')
     = Inl (EnvironmentException ''Executables created by c compiler sdcc are not runnable.'')
   \<and> snd (sanity_check_impl (example_compiler True (Some [''qemu''])) (example_system 0 (Inr 0))
          ''/tmp/w'' () ''sanitycheckc.c'' ''int main(void) { return 0; }'') = Inr ()"
  using run_phase_outcomes [where sys = "example_system 0 (Inl ''No such file or directory'')"
          and work_dir = "''/tmp/w''" and sname = "''sanitycheckc.c''"
          and code = "''int main(void) { return 0; }''" and self = "example_compiler True (Some [''qemu''])" and environment = "()"
          and stdo = "[]" and stde = "[]"
          and cmdlist = "[''qemu'', ''/tmp/w/sanitycheckc_cross.out'']"]
        run_phase_outcomes [where sys = "example_system 0 (Inr 3)"
          and work_dir = "''/tmp/w''" and sname = "''sanitycheckc.c''"
          and code = "''int main(void) { return 0; }''" and self = "example_compiler True (Some [''qemu''])" and environment = "()"
          and stdo = "[]" and stde = "[]"
          and cmdlist = "[''qemu'', ''/tmp/w/sanitycheckc_cross.out'']"]
        run_phase_outcomes [where sys = "example_system 0 (Inr 0)"
          and work_dir = "''/tmp/w''" and sname = "''sanitycheckc.c''"
          and code = "''int main(void) { return 0; }''" and self = "example_compiler True (Some [''qemu''])" and environment = "()"
          and stdo = "[]" and stde = "[]"
          and cmdlist = "[''qemu'', ''/tmp/w/sanitycheckc_cross.out'']"]
  by (simp add: sanity_eval)

subsection \<open>Construction\<close>

text \<open>
  C6. Constructing the backend for a compiler that is not a cross compiler raises the
  EnvironmentException "sdcc supports only cross-compilation."; construction returns an
  object exactly when \<open>is_cross\<close> holds.
\<close>

theorem init_requires_cross:
  "(\<not> is_cross self \<longrightarrow>
      SdccCompiler_init self = Inl (EnvironmentException ''sdcc supports only cross-compilation.''))
   \<and> ((\<exists>c. SdccCompiler_init self = Inr c) \<longleftrightarrow> is_cross self)"
  by (simp add: SdccCompiler_init_def)

theorem init_requires_cross_witness:
  "SdccCompiler_init (example_compiler False None) =
     Inl (EnvironmentException ''sdcc supports only cross-compilation.'')
   \<and> (\<exists>c. SdccCompiler_init (example_compiler True None) = Inr c)"
  using init_requires_cross [of "example_compiler False None"]
        init_requires_cross [of "example_compiler True None"]
  by (simp add: example_compiler_def)

subsection \<open>The flag tables and argument synthesis\<close>

text \<open>
  C7. \<open>get_optimization_args\<close> returns the empty list for the levels plain, 0 and g, the
  one token --opt-code-speed for 1, 2 and 3, the one token --opt-code-size for s, and
  raises KeyError for every other level.
\<close>

theorem get_optimization_args_table:
  "get_optimization_args ''plain'' = Inr [] \<and>
   get_optimization_args ''0'' = Inr [] \<and>
   get_optimization_args ''g'' = Inr [] \<and>
   get_optimization_args ''1'' = Inr [''--opt-code-speed''] \<and>
   get_optimization_args ''2'' = Inr [''--opt-code-speed''] \<and>
   get_optimization_args ''3'' = Inr [''--opt-code-speed''] \<and>
   get_optimization_args ''s'' = Inr [''--opt-code-size''] \<and>
   (level \<notin> {''plain'', ''0'', ''g'', ''1'', ''2'', ''3'', ''s''} \<longrightarrow>
      get_optimization_args level = Inl (KeyError level))"
  by (simp add: get_optimization_args_def getitem_def OPTIMIZATION_ARGS_def)

theorem get_optimization_args_table_witness:
  "''fast'' \<notin> {''plain'', ''0'', ''g'', ''1'', ''2'', ''3'', ''s''} \<and>
   get_optimization_args ''fast'' = Inl (KeyError ''fast'')"
  using get_optimization_args_table [of "''fast''"] by simp

text \<open>
  C8. \<open>get_debug_args\<close> returns the empty list for False and the one token --debug for
  True.
\<close>

theorem get_debug_args_table:
  "get_debug_args False = Inr [] \<and> get_debug_args True = Inr [''--debug'']"
  by (simp add: get_debug_args_def getitem_def DEBUG_ARGS_def)

text \<open>
  C9. \<open>get_include_args\<close> returns the one token -I followed by the path, for the empty
  path the token -I. (the current directory), and the same for either value of
  \<open>is_system\<close>.
\<close>

theorem get_include_args_token:
  "(p \<noteq> [] \<longrightarrow> get_include_args p is_system = [''-I'' @ p]) \<and>
   get_include_args [] is_system = [''-I.''] \<and>
   get_include_args p is_system = get_include_args p is_system'"
  by (simp add: get_include_args_def)

theorem get_include_args_token_witness:
  "''inc'' \<noteq> [] \<and> get_include_args ''inc'' True = [''-Iinc''] \<and>
   get_include_args ''inc'' True = get_include_args ''inc'' False"
  using get_include_args_token [of "''inc''" True False] by (simp add: get_include_args_def)

subsection \<open>The path rewriter\<close>

text \<open>
  C3, as the code has it. The rewriter returns the list it was given (the same address,
  not a copy), rewritten in place: after the call the list at that address holds, token by
  token, the -I and -L tokens with their paths rewritten and every other token as it was.
  No other list of the store changes, the list keeps its length, and it is left as it was
  when no token starts with -I or -L.
\<close>

theorem rewriter_updates_in_place:
  "snd (compute_parameters_with_absolute_paths h parameter_list build_dir) = parameter_list \<and>
   fst (compute_parameters_with_absolute_paths h parameter_list build_dir) parameter_list
     = map (\<lambda>i. if take 2 i = ''-I'' \<or> take 2 i = ''-L''
                  then take 2 i @ normpath (join build_dir (drop 2 i)) else i)
         (h parameter_list) \<and>
   (\<forall>a. a \<noteq> parameter_list \<longrightarrow>
      fst (compute_parameters_with_absolute_paths h parameter_list build_dir) a = h a) \<and>
   length (fst (compute_parameters_with_absolute_paths h parameter_list build_dir) parameter_list)
     = length (h parameter_list) \<and>
   ((\<forall>i\<in>set (h parameter_list). take 2 i \<noteq> ''-I'' \<and> take 2 i \<noteq> ''-L'') \<longrightarrow>
      fst (compute_parameters_with_absolute_paths h parameter_list build_dir) parameter_list
        = h parameter_list)"
proof -
  have same: "(\<forall>i\<in>set xs. take 2 i \<noteq> ''-I'' \<and> take 2 i \<noteq> ''-L'')
        \<longrightarrow> map (rewrite_token build_dir) xs = xs" for xs
    by (induction xs) (simp_all add: rewrite_token_def)
  have token: "rewrite_token build_dir
                 = (\<lambda>i. if take 2 i = ''-I'' \<or> take 2 i = ''-L''
                         then take 2 i @ normpath (join build_dir (drop 2 i)) else i)"
    by (rule ext) (simp add: rewrite_token_def)
  have content: "fst (compute_parameters_with_absolute_paths h parameter_list build_dir)
                   parameter_list
                 = map (rewrite_token build_dir) (h parameter_list)"
    by (simp add: compute_parameters_with_absolute_paths_def rewrite_loop_0)
  show ?thesis
    using same content
    by (simp add: compute_parameters_with_absolute_paths_def rewrite_loop_0 flip: token)
qed

theorem rewriter_updates_in_place_witness:
  "snd (compute_parameters_with_absolute_paths example_store 0 ''/b'') = 0 \<and>
   example_store 0 = [''-Ifoo'', ''-L/opt/lib'', ''-O2''] \<and>
   fst (compute_parameters_with_absolute_paths example_store 0 ''/b'') 0
     = [''-I/b/foo'', ''-L/opt/lib'', ''-O2''] \<and>
   (1::nat) \<noteq> 0 \<and>
   fst (compute_parameters_with_absolute_paths example_store 0 ''/b'') 1 = example_store 1 \<and>
   length (fst (compute_parameters_with_absolute_paths example_store 0 ''/b'') 0) = 3 \<and>
   fst (compute_parameters_with_absolute_paths example_store 1 ''/b'') 1
     = [''-c'', ''-o'', ''x.rel'']"
  using rewriter_updates_in_place [of example_store 0 "''/b''"]
        rewriter_updates_in_place [of example_store 1 "''/b''"]
  by (simp add: example_store_def path_eval)

text \<open>
  The specification's sentence (a new list is returned and the caller's list is left
  unchanged) fails on the list -Ifoo, -L/opt/lib, -O2 at address 0 with the build
  directory /b: the address returned is 0 again, and the list at 0 has changed.
\<close>

theorem rewriter_returns_new_list_counterexample:
  "snd (compute_parameters_with_absolute_paths example_store 0 ''/b'') = 0 \<and>
   example_store 0 = [''-Ifoo'', ''-L/opt/lib'', ''-O2''] \<and>
   fst (compute_parameters_with_absolute_paths example_store 0 ''/b'') 0
     = [''-I/b/foo'', ''-L/opt/lib'', ''-O2''] \<and>
   fst (compute_parameters_with_absolute_paths example_store 0 ''/b'') 0 \<noteq> example_store 0"
  by (simp add: compute_parameters_with_absolute_paths_def rewrite_loop_0 rewrite_token_def
        example_store_def path_eval)

text \<open>
  C4. The list the rewriter returns is the given list with every token mapped on its own,
  in place and order: a token whose first two characters are -I or -L keeps them and has
  the rest replaced by the normalised join of the build directory and that rest; every
  other token is passed through.
\<close>

theorem rewriter_maps_tokens:
  "fst (compute_parameters_with_absolute_paths h parameter_list build_dir)
     (snd (compute_parameters_with_absolute_paths h parameter_list build_dir))
   = map (\<lambda>i. if take 2 i = ''-I'' \<or> take 2 i = ''-L''
                then take 2 i @ normpath (join build_dir (drop 2 i)) else i)
       (h parameter_list)"
  by (simp add: compute_parameters_with_absolute_paths_def rewrite_loop_0 rewrite_token_def)

theorem rewriter_maps_tokens_witness:
  "fst (compute_parameters_with_absolute_paths example_store 0 ''/b/../build'')
     (snd (compute_parameters_with_absolute_paths example_store 0 ''/b/../build''))
   = [''-I/build/foo'', ''-L/opt/lib'', ''-O2'']"
  using rewriter_maps_tokens [of example_store 0 "''/b/../build''"]
  by (simp add: example_store_def path_eval)

text \<open>
  C5, as the code has it. With an absolute build directory (one that starts with a slash),
  rewriting the returned list again with the same build directory changes nothing; and
  with any build directory, a token -I or -L whose path is already absolute keeps its
  marker and has its path normalised, nothing else.
\<close>

theorem rewriter_idempotent_absolute:
  "(startswith build_dir sep \<longrightarrow>
      compute_parameters_with_absolute_paths
        (fst (compute_parameters_with_absolute_paths h parameter_list build_dir))
        (snd (compute_parameters_with_absolute_paths h parameter_list build_dir)) build_dir
      = compute_parameters_with_absolute_paths h parameter_list build_dir)
   \<and> (k < length (h parameter_list) \<longrightarrow>
      take 2 (h parameter_list ! k) = ''-I'' \<or> take 2 (h parameter_list ! k) = ''-L'' \<longrightarrow>
      startswith (drop 2 (h parameter_list ! k)) sep \<longrightarrow>
        fst (compute_parameters_with_absolute_paths h parameter_list build_dir) parameter_list ! k
          = take 2 (h parameter_list ! k) @ normpath (drop 2 (h parameter_list ! k)))"
proof (intro conjI impI)
  assume "startswith build_dir sep"
  then show "compute_parameters_with_absolute_paths
        (fst (compute_parameters_with_absolute_paths h parameter_list build_dir))
        (snd (compute_parameters_with_absolute_paths h parameter_list build_dir)) build_dir
      = compute_parameters_with_absolute_paths h parameter_list build_dir"
    by (simp add: compute_parameters_with_absolute_paths_def rewrite_loop_0 comp_def
          rewrite_token_idem)
next
  assume "k < length (h parameter_list)"
    and "take 2 (h parameter_list ! k) = ''-I'' \<or> take 2 (h parameter_list ! k) = ''-L''"
    and "startswith (drop 2 (h parameter_list ! k)) sep"
  then show "fst (compute_parameters_with_absolute_paths h parameter_list build_dir)
               parameter_list ! k
             = take 2 (h parameter_list ! k) @ normpath (drop 2 (h parameter_list ! k))"
    by (simp add: compute_parameters_with_absolute_paths_def rewrite_loop_0 rewrite_token_def
          join_absolute_right)
qed

theorem rewriter_idempotent_absolute_witness:
  "startswith ''/b'' sep \<and>
   fst (compute_parameters_with_absolute_paths
          (fst (compute_parameters_with_absolute_paths example_store 0 ''/b''))
          (snd (compute_parameters_with_absolute_paths example_store 0 ''/b'')) ''/b'') 0
     = [''-I/b/foo'', ''-L/opt/lib'', ''-O2''] \<and>
   (1::nat) < length (example_store 0) \<and>
   take 2 (example_store 0 ! 1) = ''-L'' \<and>
   startswith (drop 2 (example_store 0 ! 1)) sep \<and>
   fst (compute_parameters_with_absolute_paths example_store 0 ''/b'') 0 ! 1 = ''-L/opt/lib''"
  using rewriter_idempotent_absolute [of "''/b''" example_store 0 1]
  by (simp add: compute_parameters_with_absolute_paths_def rewrite_loop_0 rewrite_token_def
        example_store_def path_eval)

text \<open>
  With the relative build directory build the second rewriting prefixes the directory
  once more: -Ifoo becomes -Ibuild/foo, and then -Ibuild/build/foo.
\<close>

theorem rewriter_idempotent_counterexample:
  "fst (compute_parameters_with_absolute_paths example_store 0 ''build'') 0
     = [''-Ibuild/foo'', ''-L/opt/lib'', ''-O2''] \<and>
   fst (compute_parameters_with_absolute_paths
          (fst (compute_parameters_with_absolute_paths example_store 0 ''build''))
          (snd (compute_parameters_with_absolute_paths example_store 0 ''build'')) ''build'') 0
     = [''-Ibuild/build/foo'', ''-L/opt/lib'', ''-O2''] \<and>
   compute_parameters_with_absolute_paths
          (fst (compute_parameters_with_absolute_paths example_store 0 ''build''))
          (snd (compute_parameters_with_absolute_paths example_store 0 ''build'')) ''build''
     \<noteq> compute_parameters_with_absolute_paths example_store 0 ''build''"
proof -
  have once: "fst (compute_parameters_with_absolute_paths example_store 0 ''build'') 0
                = [''-Ibuild/foo'', ''-L/opt/lib'', ''-O2'']"
    by (simp add: compute_parameters_with_absolute_paths_def rewrite_loop_0 rewrite_token_def
          example_store_def path_eval)
  have twice: "fst (compute_parameters_with_absolute_paths
          (fst (compute_parameters_with_absolute_paths example_store 0 ''build''))
          (snd (compute_parameters_with_absolute_paths example_store 0 ''build'')) ''build'') 0
     = [''-Ibuild/build/foo'', ''-L/opt/lib'', ''-O2'']"
    by (simp add: compute_parameters_with_absolute_paths_def rewrite_loop_0 rewrite_token_def
          example_store_def path_eval)
  show ?thesis using once twice by auto
qed

end
